theory Spec2Isabelle
  imports Main "HOL-Library.Sublist"
begin

section \<open>Strings and the settings of the terminal service\<close>

text \<open>
  Python's \<^verbatim>\<open>pattern in command\<close> on two strings: \<open>pattern\<close> occurs in \<open>command\<close> as a
  contiguous block. The empty pattern occurs in every string.
\<close>

fun str_in :: "string \<Rightarrow> string \<Rightarrow> bool" where
  "str_in p [] = (p = [])"
| "str_in p (c # cs) = (prefix p (c # cs) \<or> str_in p cs)"

text \<open>
  \<^verbatim>\<open>os.path.basename\<close> on a POSIX path: everything after the last slash
  (\<^verbatim>\<open>p[p.rfind('/') + 1:]\<close>).
\<close>

definition basename :: "string \<Rightarrow> string" where
  "basename p = rev (takeWhile (\<lambda>c. c \<noteq> CHR ''/'') (rev p))"

text \<open>The fields of \<^verbatim>\<open>Settings\<close> (utils/config.py) that the terminal service reads.\<close>

record settings =
  terminal_max_output :: int
  terminal_timeout :: int
  terminal_allowed_commands :: "string list"
  terminal_forbidden_patterns :: "string list"

definition default_settings :: settings where
  "default_settings =
     \<lparr> terminal_max_output = 10000,
       terminal_timeout = 30,
       terminal_allowed_commands =
         [''ls'', ''pwd'', ''cd'', ''cat'', ''echo'', ''grep'', ''find'',
          ''python'', ''pip'', ''npm'', ''node'', ''git'', ''docker''],
       terminal_forbidden_patterns =
         [''rm -rf /'', ''sudo'', ''chmod 777'', ''curl | bash''] \<rparr>"

section \<open>Shell-word tokenisation\<close>

text \<open>
  \<^verbatim>\<open>_validate_command\<close> calls the standard library's \<^verbatim>\<open>shlex.split\<close>, which either
  returns the list of tokens or raises \<^verbatim>\<open>ValueError\<close>. A tokenizer is therefore a function
  into a sum: \<open>Inl msg\<close> is the exception, with \<open>msg\<close> its \<^verbatim>\<open>str(e)\<close>. The validator is
  defined over any such tokenizer; \<open>shlex_split\<close> below follows the state machine of
  \<^verbatim>\<open>shlex.read_token\<close> in POSIX mode with \<^verbatim>\<open>whitespace_split\<close> and no comment characters
  (the mode \<^verbatim>\<open>shlex.split\<close> selects) and is used for the concrete instances.
\<close>

type_synonym tokenizer = "string \<Rightarrow> string + string list"

datatype lexstate = LSpace | LWord | LQuote char | LEscape lexstate

definition is_whitespace :: "char \<Rightarrow> bool" where
  "is_whitespace c = (c \<in> set [CHR '' '', CHR 0x09, CHR 0x0D, CHR 0x0A])"

definition is_quote :: "char \<Rightarrow> bool" where
  "is_quote c = (c = CHR 0x27 \<or> c = CHR 0x22)"

definition is_escape :: "char \<Rightarrow> bool" where
  "is_escape c = (c = CHR 0x5C)"

text \<open>
  \<open>shlex_run st tok quoted cs\<close>: the lexer in state \<open>st\<close> with the token built so far, the
  \<^verbatim>\<open>quoted\<close> flag of the current token, and the unread input. In the whitespace state
  the token is always empty and unquoted, so only the other states use them.
\<close>

fun shlex_run :: "lexstate \<Rightarrow> string \<Rightarrow> bool \<Rightarrow> string \<Rightarrow> string + string list" where
  "shlex_run LSpace tok quoted [] = Inr []"
| "shlex_run LSpace tok quoted (c # cs) =
     (if is_whitespace c then shlex_run LSpace [] False cs
      else if is_escape c then shlex_run (LEscape LWord) [] False cs
      else if is_quote c then shlex_run (LQuote c) [] False cs
      else shlex_run LWord [c] False cs)"
| "shlex_run LWord tok quoted [] = Inr (if tok \<noteq> [] \<or> quoted then [tok] else [])"
| "shlex_run LWord tok quoted (c # cs) =
     (if is_whitespace c then
        (if tok \<noteq> [] \<or> quoted then
           (case shlex_run LSpace [] False cs of
              Inl e \<Rightarrow> Inl e
            | Inr toks \<Rightarrow> Inr (tok # toks))
         else shlex_run LSpace [] False cs)
      else if is_quote c then shlex_run (LQuote c) tok quoted cs
      else if is_escape c then shlex_run (LEscape LWord) tok quoted cs
      else shlex_run LWord (tok @ [c]) quoted cs)"
| "shlex_run (LQuote q) tok quoted [] = Inl ''No closing quotation''"
| "shlex_run (LQuote q) tok quoted (c # cs) =
     (if c = q then shlex_run LWord tok True cs
      else if is_escape c \<and> q = CHR 0x22 then shlex_run (LEscape (LQuote q)) tok True cs
      else shlex_run (LQuote q) (tok @ [c]) True cs)"
| "shlex_run (LEscape back) tok quoted [] = Inl ''No escaped character''"
| "shlex_run (LEscape back) tok quoted (c # cs) =
     (case back of
        LQuote q \<Rightarrow>
          shlex_run back ((if c \<noteq> CHR 0x5C \<and> c \<noteq> q then tok @ [CHR 0x5C] else tok) @ [c])
            quoted cs
      | _ \<Rightarrow> shlex_run back (tok @ [c]) quoted cs)"

definition shlex_split :: tokenizer where
  "shlex_split command = shlex_run LSpace [] False command"

section \<open>Command validation\<close>

text \<open>
  \<^verbatim>\<open>TerminalService._validate_command\<close>. The loop over the forbidden patterns returns at
  the first pattern that occurs in the command (\<open>find\<close>). The rest of the body runs inside
  \<^verbatim>\<open>try ... except Exception as e\<close>; the only call in it that can raise is the tokenizer,
  and the handler turns the exception into a verdict. The verdict is the pair
  \<^verbatim>\<open>(bool, Optional[str])\<close>.
\<close>

type_synonym verdict = "bool \<times> string option"

definition validate_command :: "settings \<Rightarrow> tokenizer \<Rightarrow> string \<Rightarrow> verdict" where
  "validate_command s split command =
     (case find (\<lambda>pattern. str_in pattern command) (terminal_forbidden_patterns s) of
        Some pattern \<Rightarrow> (False, Some (''Command contains forbidden pattern: '' @ pattern))
      | None \<Rightarrow>
         (case split command of
            Inl e \<Rightarrow> (False, Some (''Invalid command format: '' @ e))
          | Inr parts \<Rightarrow>
              if parts = [] then (False, Some ''Empty command'')
              else
                let base_command = hd parts in
                if terminal_allowed_commands s \<noteq> [] then
                  if base_command \<notin> set (terminal_allowed_commands s) then
                    let command_name = basename base_command in
                    if command_name \<notin> set (terminal_allowed_commands s) then
                      (False, Some (''Command '' @ [CHR 0x27] @ base_command @ [CHR 0x27]
                                     @ '' is not allowed''))
                    else (True, None)
                  else (True, None)
                else (True, None)))"

section \<open>Results, the registry and the process environment\<close>

text \<open>
  The service returns Python dictionaries; a result is the dictionary literal of the source
  as an association list (keys in the order written), read with \<open>map_of\<close>. A key that
  the literal does not have is absent from the result.
\<close>

datatype pyval = PNone | PBool bool | PInt int | PStr string

type_synonym result = "(string \<times> pyval) list"

text \<open>
  \<^verbatim>\<open>self.active_processes\<close> maps an identifier to a process handle; a handle is
  identified by its pid. \<open>children\<close> records what the service has done to each process it
  started: \<open>Running\<close> once spawned, \<open>Killed\<close> once \<^verbatim>\<open>process.kill()\<close> has returned,
  \<open>Reaped\<close> once \<^verbatim>\<open>process.communicate()\<close> has returned (it returns only after the process
  has exited and has been waited for). A call that raises leaves the status as it was.
\<close>

datatype pstatus = Running | Killed | Reaped

record service =
  active_processes :: "string \<rightharpoonup> nat"
  children :: "nat \<rightharpoonup> pstatus"

text \<open>
  What the operating system and the event loop answer during one call of the service.
  A call that can raise returns a sum or an option carrying \<^verbatim>\<open>str(e)\<close> of the exception.
  \<open>wait_for_communicate pid t\<close> is
  \<^verbatim>\<open>await asyncio.wait_for(process.communicate(), timeout=t)\<close>: it completes with the two
  decoded streams (\<^verbatim>\<open>decode('utf-8', errors='replace')\<close> never raises) and the return code,
  raises \<^verbatim>\<open>asyncio.TimeoutError\<close>, or raises another exception. \<open>communicate pid\<close> is the
  unbounded \<^verbatim>\<open>await process.communicate()\<close> that follows a kill: it returns the output
  that was still buffered, or raises.
\<close>

datatype wait_outcome = Completed string string int | TimeoutError | WaitRaised string

datatype read_outcome = ReadData string | ReadTimeout | ReadRaised string

record world =
  path_exists :: "string \<Rightarrow> bool"
  getcwd :: string
  environ :: "string \<rightharpoonup> string"
  create_subprocess_shell :: "string \<Rightarrow> string \<Rightarrow> (string \<rightharpoonup> string) \<Rightarrow> string + nat"
  create_subprocess_exec :: "string \<Rightarrow> string + nat"
  now_timestamp :: string
  wait_for_communicate :: "nat \<Rightarrow> int \<Rightarrow> wait_outcome"
  kill :: "nat \<Rightarrow> string option"
  communicate :: "nat \<Rightarrow> string + string \<times> string"
  stdin_write :: "nat \<Rightarrow> string \<Rightarrow> string option"
  stdout_read :: "nat \<Rightarrow> read_outcome"

section \<open>One-shot execution\<close>

text \<open>Python's \<^verbatim>\<open>str\<close> of an integer, for the f-string of the timeout message.\<close>

definition digit_char :: "nat \<Rightarrow> char" where
  "digit_char d = ''0123456789'' ! d"

fun str_nat :: "nat \<Rightarrow> string" where
  "str_nat n =
     (if n < 10 then [digit_char n]
      else str_nat (n div 10) @ [digit_char (n mod 10)])"

declare str_nat.simps [simp del]

definition str_int :: "int \<Rightarrow> string" where
  "str_int i = (if i < 0 then CHR ''-'' # str_nat (nat (- i)) else str_nat (nat i))"

text \<open>The slice \<^verbatim>\<open>text[:n]\<close>; a negative \<open>n\<close> counts from the end.\<close>

definition slice_to :: "int \<Rightarrow> string \<Rightarrow> string" where
  "slice_to n text = (if 0 \<le> n then take (nat n) text else take (nat (int (length text) + n)) text)"

definition truncation_marker :: string where
  "truncation_marker = CHR 0x0A # ''... [output truncated]''"

text \<open>The two \<^verbatim>\<open>if len(text) > self.settings.terminal_max_output\<close> statements.\<close>

definition truncate_output :: "settings \<Rightarrow> string \<Rightarrow> string" where
  "truncate_output s text =
     (if int (length text) > terminal_max_output s
      then slice_to (terminal_max_output s) text @ truncation_marker
      else text)"

definition combine_output :: "string \<Rightarrow> string \<Rightarrow> string" where
  "combine_output stdout_text stderr_text =
     (if stderr_text \<noteq> [] then stdout_text @ CHR 0x0A # ''[stderr]:'' @ CHR 0x0A # stderr_text
      else stdout_text)"

definition rejected_result :: "string option \<Rightarrow> result" where
  "rejected_result error_msg =
     [(''success'', PBool False),
      (''error'', case error_msg of None \<Rightarrow> PNone | Some m \<Rightarrow> PStr m),
      (''output'', PStr []),
      (''exit_code'', PInt (- 1))]"

definition completed_result :: "settings \<Rightarrow> string \<Rightarrow> string \<Rightarrow> int \<Rightarrow> result" where
  "completed_result s stdout stderr returncode =
     (let stdout_text = truncate_output s stdout;
          stderr_text = truncate_output s stderr
      in [(''success'', PBool (returncode = 0)),
          (''output'', PStr (combine_output stdout_text stderr_text)),
          (''exit_code'', PInt returncode),
          (''stdout'', PStr stdout_text),
          (''stderr'', PStr stderr_text)])"

definition timeout_result :: "int \<Rightarrow> result" where
  "timeout_result timeout =
     [(''success'', PBool False),
      (''error'', PStr (''Command timed out after '' @ str_int timeout @ '' seconds'')),
      (''output'', PStr []),
      (''exit_code'', PInt (- 1))]"

definition error_result :: "string \<Rightarrow> result" where
  "error_result e =
     [(''success'', PBool False),
      (''error'', PStr e),
      (''output'', PStr []),
      (''exit_code'', PInt (- 1))]"

text \<open>\<^verbatim>\<open>timeout = timeout or self.settings.terminal_timeout\<close>: \<^verbatim>\<open>None\<close> and \<open>0\<close> are falsy.\<close>

definition effective_timeout :: "settings \<Rightarrow> int option \<Rightarrow> int" where
  "effective_timeout s timeout =
     (case timeout of
        None \<Rightarrow> terminal_timeout s
      | Some t \<Rightarrow> if t = 0 then terminal_timeout s else t)"

definition resolve_cwd :: "world \<Rightarrow> string option \<Rightarrow> string" where
  "resolve_cwd w working_dir =
     (case working_dir of
        None \<Rightarrow> getcwd w
      | Some d \<Rightarrow> if d \<noteq> [] \<and> path_exists w d then d else getcwd w)"

definition merge_env :: "world \<Rightarrow> (string \<rightharpoonup> string) option \<Rightarrow> (string \<rightharpoonup> string)" where
  "merge_env w env = (case env of None \<Rightarrow> environ w | Some e \<Rightarrow> environ w ++ e)"

definition make_process_id :: "world \<Rightarrow> string \<Rightarrow> string" where
  "make_process_id w session_id = session_id @ ''_'' @ now_timestamp w"

definition set_status :: "nat \<Rightarrow> pstatus \<Rightarrow> service \<Rightarrow> service" where
  "set_status pid st svc = svc\<lparr>children := (children svc)(pid \<mapsto> st)\<rparr>"

text \<open>
  The inner \<^verbatim>\<open>try\<close> block with its \<^verbatim>\<open>except asyncio.TimeoutError\<close> handler. \<open>Inl e\<close> is an
  exception that leaves the block: one raised by the wait that is not a timeout, or one
  raised inside the handler by \<^verbatim>\<open>process.kill()\<close> or \<^verbatim>\<open>process.communicate()\<close>.
\<close>

definition wait_or_kill ::
  "settings \<Rightarrow> world \<Rightarrow> service \<Rightarrow> nat \<Rightarrow> int \<Rightarrow> (string + result) \<times> service" where
  "wait_or_kill s w svc pid timeout =
     (case wait_for_communicate w pid timeout of
        Completed stdout stderr returncode \<Rightarrow>
          (Inr (completed_result s stdout stderr returncode), set_status pid Reaped svc)
      | TimeoutError \<Rightarrow>
          (case kill w pid of
             Some e \<Rightarrow> (Inl e, svc)
           | None \<Rightarrow>
              (case communicate w pid of
                 Inl e \<Rightarrow> (Inl e, set_status pid Killed svc)
               | Inr drained \<Rightarrow> (Inr (timeout_result timeout), set_status pid Reaped svc)))
      | WaitRaised e \<Rightarrow> (Inl e, svc))"

text \<open>The \<^verbatim>\<open>finally\<close> clause: \<^verbatim>\<open>if process_id in self.active_processes: del ...\<close>.\<close>

definition deregister :: "string \<Rightarrow> service \<Rightarrow> service" where
  "deregister process_id svc =
     (if process_id \<in> dom (active_processes svc)
      then svc\<lparr>active_processes := (active_processes svc)(process_id := None)\<rparr>
      else svc)"

text \<open>
  \<^verbatim>\<open>TerminalService.execute_command\<close>. The result is the returned dictionary together
  with the service after the call. The outer \<^verbatim>\<open>except Exception\<close> handler receives the
  exception of a failed spawn, and whatever left the inner block after its
  \<^verbatim>\<open>finally\<close> clause has run.
\<close>

definition execute_command ::
  "settings \<Rightarrow> tokenizer \<Rightarrow> world \<Rightarrow> service \<Rightarrow> string \<Rightarrow> string \<Rightarrow> string option \<Rightarrow>
   (string \<rightharpoonup> string) option \<Rightarrow> int option \<Rightarrow> result \<times> service" where
  "execute_command s split w svc command session_id working_dir env timeout_arg =
     (let (is_valid, error_msg) = validate_command s split command in
      if \<not> is_valid then (rejected_result error_msg, svc)
      else
        let cwd = resolve_cwd w working_dir;
            cmd_env = merge_env w env;
            timeout = effective_timeout s timeout_arg
        in case create_subprocess_shell w command cwd cmd_env of
             Inl e \<Rightarrow> (error_result e, svc)
           | Inr pid \<Rightarrow>
               let process_id = make_process_id w session_id;
                   svc1 = set_status pid Running
                            (svc\<lparr>active_processes := (active_processes svc)(process_id \<mapsto> pid)\<rparr>);
                   (outcome, svc2) = wait_or_kill s w svc1 pid timeout;
                   svc3 = deregister process_id svc2
               in (case outcome of
                     Inr r \<Rightarrow> (r, svc3)
                   | Inl e \<Rightarrow> (error_result e, svc3)))"

section \<open>Interactive sessions\<close>

text \<open>
  \<^verbatim>\<open>TerminalService.create_interactive_session\<close>: the shell is spawned and stored under
  \<open>session_id\<close>; the registry is not consulted before the assignment.
\<close>

definition create_interactive_session ::
  "world \<Rightarrow> service \<Rightarrow> string \<Rightarrow> string \<Rightarrow> result \<times> service" where
  "create_interactive_session w svc session_id shell =
     (case create_subprocess_exec w shell of
        Inr pid \<Rightarrow>
          ([(''success'', PBool True),
            (''session_id'', PStr session_id),
            (''pid'', PInt (int pid))],
           set_status pid Running
             (svc\<lparr>active_processes := (active_processes svc)(session_id \<mapsto> pid)\<rparr>))
      | Inl e \<Rightarrow>
          ([(''success'', PBool False), (''error'', PStr e)], svc))"

text \<open>
  \<^verbatim>\<open>TerminalService.send_to_session\<close> returns \<^verbatim>\<open>Optional[str]\<close> and does not change the
  registry: \<^verbatim>\<open>None\<close> for an unknown session or an input/output error, the empty string
  when nothing arrives within the poll bound.
\<close>

definition send_to_session :: "world \<Rightarrow> service \<Rightarrow> string \<Rightarrow> string \<Rightarrow> string option" where
  "send_to_session w svc session_id input_data =
     (case active_processes svc session_id of
        None \<Rightarrow> None
      | Some pid \<Rightarrow>
         (case stdin_write w pid input_data of
            Some e \<Rightarrow> None
          | None \<Rightarrow>
             (case stdout_read w pid of
                ReadData out \<Rightarrow> Some out
              | ReadTimeout \<Rightarrow> Some []
              | ReadRaised e \<Rightarrow> None)))"

text \<open>
  \<^verbatim>\<open>TerminalService.kill_session\<close>: the entry is deleted only after \<^verbatim>\<open>kill\<close> and
  \<^verbatim>\<open>communicate\<close> have both returned; an exception from either is logged and the
  answer is \<^verbatim>\<open>False\<close>.
\<close>

definition kill_session :: "world \<Rightarrow> service \<Rightarrow> string \<Rightarrow> bool \<times> service" where
  "kill_session w svc session_id =
     (case active_processes svc session_id of
        None \<Rightarrow> (False, svc)
      | Some pid \<Rightarrow>
         (case kill w pid of
            Some e \<Rightarrow> (False, svc)
          | None \<Rightarrow>
             (case communicate w pid of
                Inl e \<Rightarrow> (False, set_status pid Killed svc)
              | Inr drained \<Rightarrow>
                  (True,
                   (set_status pid Reaped svc)
                     \<lparr>active_processes := (active_processes svc)(session_id := None)\<rparr>))))"

section \<open>The file-tree walk\<close>







section \<open>A concrete environment\<close>

text \<open>
  An environment in which every call succeeds: the spawned command prints a line and
  exits with code 0. The instances below vary it one field at a time.
\<close>

definition example_world :: world where
  "example_world =
     \<lparr> path_exists = (\<lambda>p. False),
       getcwd = ''/srv/app'',
       environ = Map.empty,
       create_subprocess_shell = (\<lambda>command cwd env. Inr 7),
       create_subprocess_exec = (\<lambda>shell. Inr 8),
       now_timestamp = ''1700000000.25'',
       wait_for_communicate = (\<lambda>pid t. Completed ''hello'' [] 0),
       kill = (\<lambda>pid. None),
       communicate = (\<lambda>pid. Inr ([], [])),
       stdin_write = (\<lambda>pid d. None),
       stdout_read = (\<lambda>pid. ReadTimeout) \<rparr>"

definition empty_service :: service where
  "empty_service = \<lparr> active_processes = Map.empty, children = Map.empty \<rparr>"

text \<open>The bounded wait raises \<^verbatim>\<open>asyncio.TimeoutError\<close>; the kill and the drain succeed.\<close>

definition timeout_world :: world where
  "timeout_world =
     example_world\<lparr> wait_for_communicate := (\<lambda>pid t. TimeoutError),
                    communicate := (\<lambda>pid. Inr (''partial output'', [])) \<rparr>"

text \<open>The bounded wait raises an exception that is not the timeout.\<close>

definition wait_raises_world :: world where
  "wait_raises_world =
     example_world\<lparr> wait_for_communicate := (\<lambda>pid t. WaitRaised ''Event loop is closed'') \<rparr>"

text \<open>
  The spawn raises an exception built without a message, such as the
  \<^verbatim>\<open>NotImplementedError()\<close> of an event loop without subprocess support: its \<^verbatim>\<open>str\<close> is empty.
\<close>

definition spawn_raises_world :: world where
  "spawn_raises_world = example_world\<lparr> create_subprocess_shell := (\<lambda>command cwd env. Inl []) \<rparr>"

text \<open>
  The bounded wait raises \<^verbatim>\<open>asyncio.TimeoutError\<close>, and \<^verbatim>\<open>process.kill()\<close> then raises
  \<^verbatim>\<open>ProcessLookupError()\<close>, whose \<^verbatim>\<open>str\<close> is empty: the process exited as the bound expired.
\<close>

definition kill_raises_world :: world where
  "kill_raises_world =
     example_world\<lparr> wait_for_communicate := (\<lambda>pid t. TimeoutError),
                    kill := (\<lambda>pid. Some []) \<rparr>"

text \<open>The shell of an interactive session cannot be started.\<close>

definition exec_fails_world :: world where
  "exec_fails_world =
     example_world\<lparr> create_subprocess_exec :=
                      (\<lambda>shell. Inl ''[Errno 2] No such file or directory'') \<rparr>"

text \<open>A command that prints ten characters, under a cap of five.\<close>

definition long_output_world :: world where
  "long_output_world =
     example_world\<lparr> wait_for_communicate := (\<lambda>pid t. Completed ''0123456789'' ''12345'' 0) \<rparr>"

definition small_cap_settings :: settings where
  "small_cap_settings = default_settings\<lparr> terminal_max_output := 5 \<rparr>"

text \<open>A service with one interactive session, \<open>s1\<close>, whose shell is process 1.\<close>

definition one_session_service :: service where
  "one_session_service =
     \<lparr> active_processes = [''s1'' \<mapsto> 1], children = [1 \<mapsto> Running] \<rparr>"


section \<open>Properties of the validator\<close>

lemma str_in_iff: "str_in p c \<longleftrightarrow> (\<exists>a b. c = a @ p @ b)"
proof (induction c)
  case Nil
  then show ?case by auto
next
  case (Cons x xs)
  show ?case
  proof
    assume "str_in p (x # xs)"
    then consider "prefix p (x # xs)" | "str_in p xs" by auto
    then show "\<exists>a b. x # xs = a @ p @ b"
    proof cases
      case 1
      then obtain b where "x # xs = p @ b" by (auto simp: prefix_def)
      then have "x # xs = [] @ p @ b" by simp
      then show ?thesis by blast
    next
      case 2
      with Cons.IH obtain a b where "xs = a @ p @ b" by blast
      then have "x # xs = (x # a) @ p @ b" by simp
      then show ?thesis by blast
    qed
  next
    assume "\<exists>a b. x # xs = a @ p @ b"
    then obtain a b where ab: "x # xs = a @ p @ b" by blast
    show "str_in p (x # xs)"
    proof (cases a)
      case Nil
      with ab have "prefix p (x # xs)" by (simp add: prefix_def)
      then show ?thesis by simp
    next
      case (Cons y ys)
      with ab have "xs = ys @ p @ b" by simp
      with Cons.IH have "str_in p xs" by blast
      then show ?thesis by simp
    qed
  qed
qed

lemma str_in_append: "str_in p (a @ p)"
  unfolding str_in_iff by (metis append_Nil2)

lemma find_Some_first: "find P xs = Some x \<Longrightarrow> x \<in> set xs \<and> P x"
  by (induction xs) (auto split: if_splits)

lemmas lex_simps = shlex_split_def is_whitespace_def is_quote_def is_escape_def

text \<open>
  Claim C6, as the code has it. A command that contains a configured forbidden substring is
  rejected, and the reason names the first configured pattern that occurs in the command;
  a later configured pattern that also occurs is not named. A command free of forbidden
  substrings is accepted exactly when it tokenizes to a non-empty list whose first token,
  or the basename of that token, is in the allow-list; an empty allow-list imposes no
  restriction on the first token.
\<close>

theorem validate_command_policy:
  "((\<exists>p \<in> set (terminal_forbidden_patterns s). str_in p command) \<longrightarrow>
      (\<exists>p. find (\<lambda>q. str_in q command) (terminal_forbidden_patterns s) = Some p
          \<and> p \<in> set (terminal_forbidden_patterns s) \<and> str_in p command
          \<and> validate_command s split command
              = (False, Some (''Command contains forbidden pattern: '' @ p))
          \<and> str_in p (''Command contains forbidden pattern: '' @ p)))
   \<and> ((\<forall>p \<in> set (terminal_forbidden_patterns s). \<not> str_in p command) \<longrightarrow>
        (fst (validate_command s split command) \<longleftrightarrow>
           (\<exists>tok rest. split command = Inr (tok # rest)
              \<and> (terminal_allowed_commands s = []
                   \<or> tok \<in> set (terminal_allowed_commands s)
                   \<or> basename tok \<in> set (terminal_allowed_commands s)))))"
proof (intro conjI impI)
  assume "\<exists>p \<in> set (terminal_forbidden_patterns s). str_in p command"
  then obtain p where p: "find (\<lambda>q. str_in q command) (terminal_forbidden_patterns s) = Some p"
    by (cases "find (\<lambda>q. str_in q command) (terminal_forbidden_patterns s)")
       (auto simp: find_None_iff)
  from find_Some_first [OF p] have "p \<in> set (terminal_forbidden_patterns s)" "str_in p command"
    by auto
  moreover from p have "validate_command s split command
       = (False, Some (''Command contains forbidden pattern: '' @ p))"
    by (simp add: validate_command_def)
  moreover have "str_in p (''Command contains forbidden pattern: '' @ p)"
    by (rule str_in_append)
  ultimately show "\<exists>p. find (\<lambda>q. str_in q command) (terminal_forbidden_patterns s) = Some p
          \<and> p \<in> set (terminal_forbidden_patterns s) \<and> str_in p command
          \<and> validate_command s split command
              = (False, Some (''Command contains forbidden pattern: '' @ p))
          \<and> str_in p (''Command contains forbidden pattern: '' @ p)"
    using p by blast
next
  assume "\<forall>p \<in> set (terminal_forbidden_patterns s). \<not> str_in p command"
  then have none: "find (\<lambda>q. str_in q command) (terminal_forbidden_patterns s) = None"
    by (simp add: find_None_iff)
  show "fst (validate_command s split command) \<longleftrightarrow>
           (\<exists>tok rest. split command = Inr (tok # rest)
              \<and> (terminal_allowed_commands s = []
                   \<or> tok \<in> set (terminal_allowed_commands s)
                   \<or> basename tok \<in> set (terminal_allowed_commands s)))"
  proof (cases "split command")
    case (Inl e)
    with none show ?thesis by (simp add: validate_command_def)
  next
    case (Inr parts)
    show ?thesis
    proof (cases parts)
      case Nil
      with none Inr show ?thesis by (simp add: validate_command_def)
    next
      case (Cons tok rest)
      with none Inr show ?thesis by (auto simp: validate_command_def Let_def)
    qed
  qed
qed

theorem validate_command_policy_witness:
  "validate_command default_settings shlex_split ''sudo ls''
     = (False, Some ''Command contains forbidden pattern: sudo'')
   \<and> fst (validate_command default_settings shlex_split ''/usr/bin/python x.py'')
   \<and> \<not> fst (validate_command default_settings shlex_split ''rm x.py'')"
proof -
  have a: "find (\<lambda>q. str_in q ''sudo ls'') (terminal_forbidden_patterns default_settings)
             = Some ''sudo''"
    by (simp add: default_settings_def)
  have a': "\<exists>p \<in> set (terminal_forbidden_patterns default_settings). str_in p ''sudo ls''"
    by (simp add: default_settings_def)
  have b: "\<forall>p \<in> set (terminal_forbidden_patterns default_settings).
             \<not> str_in p ''/usr/bin/python x.py''"
    by (simp add: default_settings_def)
  have c: "shlex_split ''/usr/bin/python x.py'' = Inr [''/usr/bin/python'', ''x.py'']"
    by (simp add: lex_simps)
  have d: "basename ''/usr/bin/python'' \<in> set (terminal_allowed_commands default_settings)"
    by (simp add: basename_def default_settings_def)
  have e: "\<forall>p \<in> set (terminal_forbidden_patterns default_settings). \<not> str_in p ''rm x.py''"
    by (simp add: default_settings_def)
  have f: "shlex_split ''rm x.py'' = Inr [''rm'', ''x.py'']"
    by (simp add: lex_simps)
  have g: "terminal_allowed_commands default_settings \<noteq> []
           \<and> ''rm'' \<notin> set (terminal_allowed_commands default_settings)
           \<and> basename ''rm'' \<notin> set (terminal_allowed_commands default_settings)"
    by (simp add: basename_def default_settings_def)
  have 1: "validate_command default_settings shlex_split ''sudo ls''
             = (False, Some ''Command contains forbidden pattern: sudo'')"
    using validate_command_policy [where s = default_settings and split = shlex_split
        and command = "''sudo ls''"] a a'
    by auto
  have 2: "fst (validate_command default_settings shlex_split ''/usr/bin/python x.py'')"
    using validate_command_policy [where s = default_settings and split = shlex_split
        and command = "''/usr/bin/python x.py''"] b c d
    by blast
  have 3: "\<not> fst (validate_command default_settings shlex_split ''rm x.py'')"
    using validate_command_policy [where s = default_settings and split = shlex_split
        and command = "''rm x.py''"] e f g
    by auto
  from 1 2 3 show ?thesis by blast
qed

text \<open>
  The claim as stated asks for every forbidden substring of the command to appear in the
  reason. The loop returns at the first configured pattern that occurs: \<^verbatim>\<open>sudo rm -rf /\<close>
  contains the configured pattern \<^verbatim>\<open>sudo\<close>, and the reason names \<^verbatim>\<open>rm -rf /\<close> only.
\<close>

theorem validate_command_first_pattern_counterexample:
  "''sudo'' \<in> set (terminal_forbidden_patterns default_settings)
   \<and> str_in ''sudo'' ''sudo rm -rf /''
   \<and> validate_command default_settings shlex_split ''sudo rm -rf /''
       = (False, Some ''Command contains forbidden pattern: rm -rf /'')
   \<and> \<not> str_in ''sudo'' ''Command contains forbidden pattern: rm -rf /''"
  by (simp add: validate_command_def default_settings_def)

text \<open>
  Claim C7. The validator always returns a verdict: an accepted command carries no reason
  and every rejection carries a non-empty one. A command that tokenizes to the empty list
  is rejected, with the reason \<^verbatim>\<open>Empty command\<close> unless a forbidden pattern already matched;
  a command on which the tokenizer raises is rejected, with a reason that quotes the
  exception unless a forbidden pattern already matched. The exception never leaves the
  validator.
\<close>

theorem validate_command_never_raises:
  "(fst (validate_command s split command) \<longrightarrow> snd (validate_command s split command) = None)
   \<and> (\<not> fst (validate_command s split command) \<longrightarrow>
        (\<exists>r. snd (validate_command s split command) = Some r \<and> r \<noteq> []))
   \<and> (split command = Inr [] \<longrightarrow>
        \<not> fst (validate_command s split command)
        \<and> ((\<forall>p \<in> set (terminal_forbidden_patterns s). \<not> str_in p command) \<longrightarrow>
             validate_command s split command = (False, Some ''Empty command'')))
   \<and> (\<forall>e. split command = Inl e \<longrightarrow>
        \<not> fst (validate_command s split command)
        \<and> ((\<forall>p \<in> set (terminal_forbidden_patterns s). \<not> str_in p command) \<longrightarrow>
             validate_command s split command
               = (False, Some (''Invalid command format: '' @ e))))"
proof -
  have none: "(\<forall>p \<in> set (terminal_forbidden_patterns s). \<not> str_in p command) \<Longrightarrow>
      find (\<lambda>q. str_in q command) (terminal_forbidden_patterns s) = None"
    by (simp add: find_None_iff)
  show ?thesis
    by (cases "find (\<lambda>q. str_in q command) (terminal_forbidden_patterns s)";
        cases "split command")
       (auto simp: validate_command_def Let_def none find_None_iff dest!: find_Some_first)
qed

theorem validate_command_never_raises_witness:
  "validate_command default_settings shlex_split ''echo 'abc''
     = (False, Some ''Invalid command format: No closing quotation'')
   \<and> validate_command default_settings shlex_split ''   '' = (False, Some ''Empty command'')
   \<and> snd (validate_command default_settings shlex_split ''echo hello'') = None"
proof -
  have a: "\<forall>p \<in> set (terminal_forbidden_patterns default_settings). \<not> str_in p ''echo 'abc''"
    by (simp add: default_settings_def)
  have b: "shlex_split ''echo 'abc'' = Inl ''No closing quotation''"
    by (simp add: lex_simps)
  have c: "\<forall>p \<in> set (terminal_forbidden_patterns default_settings). \<not> str_in p ''   ''"
    by (simp add: default_settings_def)
  have d: "shlex_split ''   '' = Inr []"
    by (simp add: lex_simps)
  have e: "fst (validate_command default_settings shlex_split ''echo hello'')"
    by (simp add: validate_command_def default_settings_def lex_simps)
  have 1: "validate_command default_settings shlex_split ''echo 'abc''
             = (False, Some ''Invalid command format: No closing quotation'')"
    using validate_command_never_raises [where s = default_settings and split = shlex_split
        and command = "''echo 'abc''"] a b
    by simp
  have 2: "validate_command default_settings shlex_split ''   '' = (False, Some ''Empty command'')"
    using validate_command_never_raises [where s = default_settings and split = shlex_split
        and command = "''   ''"] c d
    by simp
  have 3: "snd (validate_command default_settings shlex_split ''echo hello'') = None"
    using validate_command_never_raises [where s = default_settings and split = shlex_split
        and command = "''echo hello''"] e
    by blast
  from 1 2 3 show ?thesis by blast
qed

section \<open>Properties of one-shot execution\<close>

subsection \<open>The return paths of \<open>execute_command\<close>\<close>

lemma execute_command_rejected:
  "\<not> fst (validate_command s split command) \<Longrightarrow>
   execute_command s split w svc command sid wd env t
     = (rejected_result (snd (validate_command s split command)), svc)"
  by (simp add: execute_command_def Let_def split_beta)

lemma execute_command_spawn_failed:
  "fst (validate_command s split command) \<Longrightarrow>
   create_subprocess_shell w command (resolve_cwd w wd) (merge_env w env) = Inl e \<Longrightarrow>
   execute_command s split w svc command sid wd env t = (error_result e, svc)"
  by (simp add: execute_command_def Let_def split_beta)

lemma execute_command_spawned:
  "fst (validate_command s split command) \<Longrightarrow>
   create_subprocess_shell w command (resolve_cwd w wd) (merge_env w env) = Inr pid \<Longrightarrow>
   execute_command s split w svc command sid wd env t
     = ((case fst (wait_or_kill s w
                    (set_status pid Running
                       (svc\<lparr>active_processes :=
                              (active_processes svc)(make_process_id w sid \<mapsto> pid)\<rparr>))
                    pid (effective_timeout s t)) of
           Inr r \<Rightarrow> r
         | Inl e \<Rightarrow> error_result e),
        deregister (make_process_id w sid)
          (snd (wait_or_kill s w
                  (set_status pid Running
                     (svc\<lparr>active_processes :=
                            (active_processes svc)(make_process_id w sid \<mapsto> pid)\<rparr>))
                  pid (effective_timeout s t))))"
  by (simp add: execute_command_def Let_def split_beta split: sum.splits)

lemma wait_or_kill_completed:
  "wait_for_communicate w pid t = Completed out err rc \<Longrightarrow>
   wait_or_kill s w svc pid t = (Inr (completed_result s out err rc), set_status pid Reaped svc)"
  by (simp add: wait_or_kill_def)

lemma wait_or_kill_timed_out:
  "wait_for_communicate w pid t = TimeoutError \<Longrightarrow> kill w pid = None \<Longrightarrow>
   communicate w pid = Inr d \<Longrightarrow>
   wait_or_kill s w svc pid t = (Inr (timeout_result t), set_status pid Reaped svc)"
  by (simp add: wait_or_kill_def)

lemma wait_or_kill_drain_raised:
  "wait_for_communicate w pid t = TimeoutError \<Longrightarrow> kill w pid = None \<Longrightarrow>
   communicate w pid = Inl e \<Longrightarrow>
   wait_or_kill s w svc pid t = (Inl e, set_status pid Killed svc)"
  by (simp add: wait_or_kill_def)

lemma wait_or_kill_kill_raised:
  "wait_for_communicate w pid t = TimeoutError \<Longrightarrow> kill w pid = Some e \<Longrightarrow>
   wait_or_kill s w svc pid t = (Inl e, svc)"
  by (simp add: wait_or_kill_def)

lemma wait_or_kill_wait_raised:
  "wait_for_communicate w pid t = WaitRaised e \<Longrightarrow> wait_or_kill s w svc pid t = (Inl e, svc)"
  by (simp add: wait_or_kill_def)

lemma wait_or_kill_registry:
  "active_processes (snd (wait_or_kill s w svc pid t)) = active_processes svc"
  by (simp add: wait_or_kill_def set_status_def
           split: wait_outcome.splits option.splits sum.splits)

lemma deregister_removes: "active_processes (deregister k svc) k = None"
  by (auto simp: deregister_def)

lemma deregister_others: "k' \<noteq> k \<Longrightarrow> active_processes (deregister k svc) k' = active_processes svc k'"
  by (simp add: deregister_def)

lemma deregister_children: "children (deregister k svc) = children svc"
  by (simp add: deregister_def)

lemma set_status_children: "children (set_status pid st svc) pid = Some st"
  by (simp add: set_status_def)

lemma set_status_registry: "active_processes (set_status pid st svc) = active_processes svc"
  by (simp add: set_status_def)

lemmas example_simps =
  example_world_def empty_service_def default_settings_def validate_command_def
  resolve_cwd_def merge_env_def effective_timeout_def make_process_id_def

subsection \<open>Deregistration and the fate of the spawned process\<close>

text \<open>
  What the cleanup achieves. On every return path the registry holds no entry under the
  generated execution id when \<open>execute_command\<close> returns: a rejected command and a failed
  spawn leave the service untouched (no id was generated, no process was started), and
  after a successful spawn the \<^verbatim>\<open>finally\<close> clause has removed the entry and changed no
  other. On normal completion the spawned process has been reaped. On a timeout, once
  \<^verbatim>\<open>kill()\<close> has returned, the process has been killed, and it has been reaped when the
  following \<^verbatim>\<open>communicate()\<close> returns.
\<close>

theorem execute_command_cleanup:
  "(\<not> fst (validate_command s split command) \<longrightarrow>
      snd (execute_command s split w svc command sid wd env t) = svc)
   \<and> (fst (validate_command s split command) \<longrightarrow>
        (\<forall>e. create_subprocess_shell w command (resolve_cwd w wd) (merge_env w env) = Inl e \<longrightarrow>
            snd (execute_command s split w svc command sid wd env t) = svc)
      \<and> (\<forall>pid. create_subprocess_shell w command (resolve_cwd w wd) (merge_env w env) = Inr pid \<longrightarrow>
            active_processes (snd (execute_command s split w svc command sid wd env t))
               (make_process_id w sid) = None
          \<and> (\<forall>k. k \<noteq> make_process_id w sid \<longrightarrow>
                active_processes (snd (execute_command s split w svc command sid wd env t)) k
                  = active_processes svc k)
          \<and> ((\<exists>out err rc. wait_for_communicate w pid (effective_timeout s t)
                              = Completed out err rc) \<longrightarrow>
                children (snd (execute_command s split w svc command sid wd env t)) pid
                  = Some Reaped)
          \<and> (wait_for_communicate w pid (effective_timeout s t) = TimeoutError
               \<and> kill w pid = None \<longrightarrow>
                children (snd (execute_command s split w svc command sid wd env t)) pid
                  = (case communicate w pid of
                       Inr drained \<Rightarrow> Some Reaped
                     | Inl e \<Rightarrow> Some Killed))))"
proof (intro conjI impI allI)
  assume "\<not> fst (validate_command s split command)"
  then show "snd (execute_command s split w svc command sid wd env t) = svc"
    by (simp add: execute_command_rejected)
next
  fix e
  assume "fst (validate_command s split command)"
    and "create_subprocess_shell w command (resolve_cwd w wd) (merge_env w env) = Inl e"
  then show "snd (execute_command s split w svc command sid wd env t) = svc"
    by (simp add: execute_command_spawn_failed)
next
  fix pid
  assume v: "fst (validate_command s split command)"
    and sp: "create_subprocess_shell w command (resolve_cwd w wd) (merge_env w env) = Inr pid"
  note ex = execute_command_spawned [OF v sp]
  show "active_processes (snd (execute_command s split w svc command sid wd env t))
          (make_process_id w sid) = None"
    by (simp add: ex deregister_removes)
  show "active_processes (snd (execute_command s split w svc command sid wd env t)) k
          = active_processes svc k" if "k \<noteq> make_process_id w sid" for k
    using that
    by (simp add: ex deregister_others wait_or_kill_registry set_status_registry)
  show "children (snd (execute_command s split w svc command sid wd env t)) pid = Some Reaped"
    if "\<exists>out err rc. wait_for_communicate w pid (effective_timeout s t) = Completed out err rc"
  proof -
    from that obtain out err rc
      where "wait_for_communicate w pid (effective_timeout s t) = Completed out err rc"
      by blast
    then show ?thesis
      by (simp add: ex wait_or_kill_completed deregister_children set_status_children)
  qed
  show "children (snd (execute_command s split w svc command sid wd env t)) pid
          = (case communicate w pid of Inr drained \<Rightarrow> Some Reaped | Inl e \<Rightarrow> Some Killed)"
    if "wait_for_communicate w pid (effective_timeout s t) = TimeoutError \<and> kill w pid = None"
  proof (cases "communicate w pid")
    case (Inl e)
    with that show ?thesis
      by (simp add: ex wait_or_kill_drain_raised deregister_children set_status_children)
  next
    case (Inr d)
    with that show ?thesis
      by (simp add: ex wait_or_kill_timed_out deregister_children set_status_children)
  qed
qed

theorem execute_command_cleanup_witness:
  "active_processes
     (snd (execute_command default_settings shlex_split example_world empty_service
             ''echo hello'' ''default'' None None None)) ''default_1700000000.25'' = None
   \<and> children
       (snd (execute_command default_settings shlex_split example_world empty_service
               ''echo hello'' ''default'' None None None)) 7 = Some Reaped
   \<and> children
       (snd (execute_command default_settings shlex_split timeout_world empty_service
               ''echo hello'' ''default'' None None None)) 7 = Some Reaped
   \<and> snd (execute_command default_settings shlex_split example_world empty_service
            ''sudo ls'' ''default'' None None None) = empty_service"
proof -
  have v: "fst (validate_command default_settings shlex_split ''echo hello'')"
    by (simp add: example_simps lex_simps)
  have nv: "\<not> fst (validate_command default_settings shlex_split ''sudo ls'')"
    by (simp add: example_simps)
  have sp: "create_subprocess_shell example_world ''echo hello''
              (resolve_cwd example_world None) (merge_env example_world None) = Inr 7"
    by (simp add: example_simps)
  have sp': "create_subprocess_shell timeout_world ''echo hello''
              (resolve_cwd timeout_world None) (merge_env timeout_world None) = Inr 7"
    by (simp add: timeout_world_def example_simps)
  have w1: "\<exists>out err rc. wait_for_communicate example_world 7
              (effective_timeout default_settings None) = Completed out err rc"
    by (simp add: example_simps)
  have w2: "wait_for_communicate timeout_world 7 (effective_timeout default_settings None)
              = TimeoutError \<and> kill timeout_world 7 = None"
    by (simp add: timeout_world_def example_simps)
  have c2: "communicate timeout_world 7 = Inr (''partial output'', [])"
    by (simp add: timeout_world_def example_simps)
  have id: "make_process_id example_world ''default'' = ''default_1700000000.25''"
    by (simp add: example_simps)
  note A = execute_command_cleanup [where s = default_settings and split = shlex_split
      and w = example_world and svc = empty_service and command = "''echo hello''"
      and sid = "''default''" and wd = None and env = None and t = None]
  note B = execute_command_cleanup [where s = default_settings and split = shlex_split
      and w = timeout_world and svc = empty_service and command = "''echo hello''"
      and sid = "''default''" and wd = None and env = None and t = None]
  note C = execute_command_cleanup [where s = default_settings and split = shlex_split
      and w = example_world and svc = empty_service and command = "''sudo ls''"
      and sid = "''default''" and wd = None and env = None and t = None]
  from A v sp id have 1: "active_processes
     (snd (execute_command default_settings shlex_split example_world empty_service
             ''echo hello'' ''default'' None None None)) ''default_1700000000.25'' = None"
    by metis
  from A v sp w1 have 2: "children
       (snd (execute_command default_settings shlex_split example_world empty_service
               ''echo hello'' ''default'' None None None)) 7 = Some Reaped"
    by blast
  from B v sp' w2 have "children
       (snd (execute_command default_settings shlex_split timeout_world empty_service
               ''echo hello'' ''default'' None None None)) 7
         = (case communicate timeout_world 7 of
              Inr drained \<Rightarrow> Some Reaped | Inl e \<Rightarrow> Some Killed)"
    by blast
  with c2 have 3: "children
       (snd (execute_command default_settings shlex_split timeout_world empty_service
               ''echo hello'' ''default'' None None None)) 7 = Some Reaped"
    by simp
  from C nv have 4: "snd (execute_command default_settings shlex_split example_world
       empty_service ''sudo ls'' ''default'' None None None) = empty_service"
    by blast
  from 1 2 3 4 show ?thesis by blast
qed

text \<open>
  Claim C1: when \<open>execute_command\<close> returns, the registry has no entry under the generated
  execution id and no process spawned by the call remains unkilled and unreaped, on every
  return path. The registry half holds (above). The process half fails on the internal-error
  path: when the bounded wait raises an exception other than the timeout, the handler of
  \<^verbatim>\<open>asyncio.TimeoutError\<close>, the only place that kills and reaps, is skipped; the \<^verbatim>\<open>finally\<close>
  clause removes the entry, the outer handler returns the error result, and the process that
  the call spawned (pid 7) is still running, with no registry entry left to reach it.
\<close>

theorem execute_command_leaves_orphan:
  "fst (execute_command default_settings shlex_split wait_raises_world empty_service
          ''echo hello'' ''default'' None None None) = error_result ''Event loop is closed''
   \<and> active_processes
       (snd (execute_command default_settings shlex_split wait_raises_world empty_service
               ''echo hello'' ''default'' None None None)) ''default_1700000000.25'' = None
   \<and> children
       (snd (execute_command default_settings shlex_split wait_raises_world empty_service
               ''echo hello'' ''default'' None None None)) 7 = Some Running"
proof -
  have v: "fst (validate_command default_settings shlex_split ''echo hello'')"
    by (simp add: example_simps lex_simps)
  have sp: "create_subprocess_shell wait_raises_world ''echo hello''
              (resolve_cwd wait_raises_world None) (merge_env wait_raises_world None) = Inr 7"
    by (simp add: wait_raises_world_def example_simps)
  have wr: "wait_for_communicate wait_raises_world 7 (effective_timeout default_settings None)
              = WaitRaised ''Event loop is closed''"
    by (simp add: wait_raises_world_def example_simps)
  have id: "make_process_id wait_raises_world ''default'' = ''default_1700000000.25''"
    by (simp add: wait_raises_world_def example_simps)
  show ?thesis
    using id
    by (simp add: execute_command_spawned [OF v sp] wait_or_kill_wait_raised [OF wr]
          deregister_removes deregister_children set_status_children)
qed

subsection \<open>The fields of the returned dictionaries\<close>

lemma completed_result_fields:
  "map_of (completed_result s out err rc) ''success'' = Some (PBool (rc = 0))"
  "map_of (completed_result s out err rc) ''exit_code'' = Some (PInt rc)"
  "map_of (completed_result s out err rc) ''stdout'' = Some (PStr (truncate_output s out))"
  "map_of (completed_result s out err rc) ''stderr'' = Some (PStr (truncate_output s err))"
  "map_of (completed_result s out err rc) ''output''
     = Some (PStr (combine_output (truncate_output s out) (truncate_output s err)))"
  "map_of (completed_result s out err rc) ''truncated'' = None"
  "map_of (completed_result s out err rc) ''error'' = None"
  by (simp_all add: completed_result_def Let_def)

lemma error_result_fields:
  "map_of (error_result e) ''success'' = Some (PBool False)"
  "map_of (error_result e) ''exit_code'' = Some (PInt (- 1))"
  "map_of (error_result e) ''error'' = Some (PStr e)"
  "map_of (error_result e) ''output'' = Some (PStr [])"
  "map_of (error_result e) ''stdout'' = None"
  "map_of (error_result e) ''stderr'' = None"
  by (simp_all add: error_result_def)

lemma timeout_result_fields:
  "map_of (timeout_result t) ''success'' = Some (PBool False)"
  "map_of (timeout_result t) ''exit_code'' = Some (PInt (- 1))"
  "map_of (timeout_result t) ''error''
     = Some (PStr (''Command timed out after '' @ str_int t @ '' seconds''))"
  "map_of (timeout_result t) ''output'' = Some (PStr [])"
  "map_of (timeout_result t) ''stdout'' = None"
  "map_of (timeout_result t) ''stderr'' = None"
  by (simp_all add: timeout_result_def)

lemma rejected_result_fields:
  "map_of (rejected_result (Some m)) ''success'' = Some (PBool False)"
  "map_of (rejected_result (Some m)) ''exit_code'' = Some (PInt (- 1))"
  "map_of (rejected_result (Some m)) ''error'' = Some (PStr m)"
  by (simp_all add: rejected_result_def)

lemma rejection_has_reason:
  "\<not> fst (validate_command s split command) \<Longrightarrow>
   \<exists>r. snd (validate_command s split command) = Some r \<and> r \<noteq> []"
  by (cases "find (\<lambda>q. str_in q command) (terminal_forbidden_patterns s)";
      cases "split command")
     (auto simp: validate_command_def Let_def split: if_splits)

lemma execute_command_completed:
  "fst (validate_command s split command) \<Longrightarrow>
   create_subprocess_shell w command (resolve_cwd w wd) (merge_env w env) = Inr pid \<Longrightarrow>
   wait_for_communicate w pid (effective_timeout s t) = Completed out err rc \<Longrightarrow>
   fst (execute_command s split w svc command sid wd env t) = completed_result s out err rc"
  by (simp add: execute_command_spawned wait_or_kill_completed)

lemma execute_command_timed_out:
  "fst (validate_command s split command) \<Longrightarrow>
   create_subprocess_shell w command (resolve_cwd w wd) (merge_env w env) = Inr pid \<Longrightarrow>
   wait_for_communicate w pid (effective_timeout s t) = TimeoutError \<Longrightarrow>
   kill w pid = None \<Longrightarrow> communicate w pid = Inr d \<Longrightarrow>
   fst (execute_command s split w svc command sid wd env t)
     = timeout_result (effective_timeout s t)"
  by (simp add: execute_command_spawned wait_or_kill_timed_out)

lemma execute_command_raised:
  "fst (validate_command s split command) \<Longrightarrow>
   create_subprocess_shell w command (resolve_cwd w wd) (merge_env w env) = Inr pid \<Longrightarrow>
   wait_for_communicate w pid (effective_timeout s t) = WaitRaised e
   \<or> (wait_for_communicate w pid (effective_timeout s t) = TimeoutError
        \<and> (kill w pid = Some e \<or> (kill w pid = None \<and> communicate w pid = Inl e))) \<Longrightarrow>
   fst (execute_command s split w svc command sid wd env t) = error_result e"
  by (auto simp: execute_command_spawned wait_or_kill_wait_raised wait_or_kill_kill_raised
        wait_or_kill_drain_raised)

lemma timed_out_in_message: "str_in ''timed out'' (''Command timed out after '' @ rest)"
proof -
  have "''Command timed out after '' @ rest = ''Command '' @ ''timed out'' @ ('' after '' @ rest)"
    by simp
  then show ?thesis
    unfolding str_in_iff by blast
qed

subsection \<open>Success, exit code and error\<close>

text \<open>
  Claim C2, as the code has it. When the command is accepted, spawned and completes within
  the bound, \<^verbatim>\<open>success\<close> is true exactly when the return code is 0 and \<^verbatim>\<open>exit_code\<close> is that
  return code. When validation rejects the command, \<^verbatim>\<open>success\<close> is false, \<^verbatim>\<open>exit_code\<close> is -1
  and \<^verbatim>\<open>error\<close> is the non-empty reason. When an exception is caught by the outer handler
  (a failed spawn, a non-timeout exception of the wait, or an exception of \<^verbatim>\<open>kill()\<close> or
  \<^verbatim>\<open>communicate()\<close> in the timeout handler), \<^verbatim>\<open>success\<close> is false, \<^verbatim>\<open>exit_code\<close> is -1 and
  \<^verbatim>\<open>error\<close> is \<^verbatim>\<open>str(e)\<close>, whatever that string is.
\<close>

theorem execute_command_result_code:
  "(fst (validate_command s split command) \<longrightarrow>
      (\<forall>pid out err rc.
          create_subprocess_shell w command (resolve_cwd w wd) (merge_env w env) = Inr pid
          \<and> wait_for_communicate w pid (effective_timeout s t) = Completed out err rc \<longrightarrow>
          map_of (fst (execute_command s split w svc command sid wd env t)) ''success''
            = Some (PBool (rc = 0))
          \<and> map_of (fst (execute_command s split w svc command sid wd env t)) ''exit_code''
            = Some (PInt rc)))
   \<and> (\<not> fst (validate_command s split command) \<longrightarrow>
        map_of (fst (execute_command s split w svc command sid wd env t)) ''success''
          = Some (PBool False)
        \<and> map_of (fst (execute_command s split w svc command sid wd env t)) ''exit_code''
          = Some (PInt (- 1))
        \<and> (\<exists>m. map_of (fst (execute_command s split w svc command sid wd env t)) ''error''
                 = Some (PStr m) \<and> m \<noteq> []))
   \<and> (fst (validate_command s split command) \<longrightarrow>
        (\<forall>e. (create_subprocess_shell w command (resolve_cwd w wd) (merge_env w env) = Inl e
              \<or> (\<exists>pid. create_subprocess_shell w command (resolve_cwd w wd) (merge_env w env)
                          = Inr pid
                    \<and> (wait_for_communicate w pid (effective_timeout s t) = WaitRaised e
                       \<or> (wait_for_communicate w pid (effective_timeout s t) = TimeoutError
                           \<and> (kill w pid = Some e
                               \<or> (kill w pid = None \<and> communicate w pid = Inl e)))))) \<longrightarrow>
          map_of (fst (execute_command s split w svc command sid wd env t)) ''success''
            = Some (PBool False)
          \<and> map_of (fst (execute_command s split w svc command sid wd env t)) ''exit_code''
            = Some (PInt (- 1))
          \<and> map_of (fst (execute_command s split w svc command sid wd env t)) ''error''
            = Some (PStr e)))"
proof (intro conjI impI allI)
  fix pid out err rc
  assume "fst (validate_command s split command)"
    and "create_subprocess_shell w command (resolve_cwd w wd) (merge_env w env) = Inr pid
         \<and> wait_for_communicate w pid (effective_timeout s t) = Completed out err rc"
  then have r: "fst (execute_command s split w svc command sid wd env t)
                  = completed_result s out err rc"
    by (simp add: execute_command_completed)
  show "map_of (fst (execute_command s split w svc command sid wd env t)) ''success''
          = Some (PBool (rc = 0))"
    by (simp only: r completed_result_fields)
  show "map_of (fst (execute_command s split w svc command sid wd env t)) ''exit_code''
          = Some (PInt rc)"
    by (simp only: r completed_result_fields)
next
  assume nv: "\<not> fst (validate_command s split command)"
  from rejection_has_reason [OF nv] obtain m
    where m: "snd (validate_command s split command) = Some m" "m \<noteq> []"
    by blast
  from nv m have r: "fst (execute_command s split w svc command sid wd env t)
                       = rejected_result (Some m)"
    by (simp add: execute_command_rejected)
  show "map_of (fst (execute_command s split w svc command sid wd env t)) ''success''
          = Some (PBool False)"
    by (simp only: r rejected_result_fields)
  show "map_of (fst (execute_command s split w svc command sid wd env t)) ''exit_code''
          = Some (PInt (- 1))"
    by (simp only: r rejected_result_fields)
  show "\<exists>m. map_of (fst (execute_command s split w svc command sid wd env t)) ''error''
               = Some (PStr m) \<and> m \<noteq> []"
    using m by (simp only: r rejected_result_fields) blast
next
  fix e
  assume v: "fst (validate_command s split command)"
    and h: "create_subprocess_shell w command (resolve_cwd w wd) (merge_env w env) = Inl e
            \<or> (\<exists>pid. create_subprocess_shell w command (resolve_cwd w wd) (merge_env w env)
                        = Inr pid
                  \<and> (wait_for_communicate w pid (effective_timeout s t) = WaitRaised e
                     \<or> (wait_for_communicate w pid (effective_timeout s t) = TimeoutError
                         \<and> (kill w pid = Some e
                             \<or> (kill w pid = None \<and> communicate w pid = Inl e)))))"
  have r: "fst (execute_command s split w svc command sid wd env t) = error_result e"
    using h
  proof
    assume "create_subprocess_shell w command (resolve_cwd w wd) (merge_env w env) = Inl e"
    with v show ?thesis by (simp add: execute_command_spawn_failed)
  next
    assume "\<exists>pid. create_subprocess_shell w command (resolve_cwd w wd) (merge_env w env)
                     = Inr pid
               \<and> (wait_for_communicate w pid (effective_timeout s t) = WaitRaised e
                  \<or> (wait_for_communicate w pid (effective_timeout s t) = TimeoutError
                      \<and> (kill w pid = Some e
                          \<or> (kill w pid = None \<and> communicate w pid = Inl e))))"
    then obtain pid
      where "create_subprocess_shell w command (resolve_cwd w wd) (merge_env w env) = Inr pid"
        and "wait_for_communicate w pid (effective_timeout s t) = WaitRaised e
             \<or> (wait_for_communicate w pid (effective_timeout s t) = TimeoutError
                 \<and> (kill w pid = Some e \<or> (kill w pid = None \<and> communicate w pid = Inl e)))"
      by blast
    with v show ?thesis by (rule execute_command_raised)
  qed
  show "map_of (fst (execute_command s split w svc command sid wd env t)) ''success''
          = Some (PBool False)"
    by (simp only: r error_result_fields)
  show "map_of (fst (execute_command s split w svc command sid wd env t)) ''exit_code''
          = Some (PInt (- 1))"
    by (simp only: r error_result_fields)
  show "map_of (fst (execute_command s split w svc command sid wd env t)) ''error''
          = Some (PStr e)"
    by (simp only: r error_result_fields)
qed

theorem execute_command_result_code_witness:
  "map_of (fst (execute_command default_settings shlex_split example_world empty_service
                  ''echo hello'' ''default'' None None None)) ''success'' = Some (PBool True)
   \<and> map_of (fst (execute_command default_settings shlex_split example_world empty_service
                     ''echo hello'' ''default'' None None None)) ''exit_code'' = Some (PInt 0)
   \<and> map_of (fst (execute_command default_settings shlex_split example_world empty_service
                     ''sudo ls'' ''default'' None None None)) ''exit_code'' = Some (PInt (- 1))
   \<and> map_of (fst (execute_command default_settings shlex_split wait_raises_world
                     empty_service ''echo hello'' ''default'' None None None)) ''error''
       = Some (PStr ''Event loop is closed'')"
proof -
  have v: "fst (validate_command default_settings shlex_split ''echo hello'')"
    by (simp add: example_simps lex_simps)
  have nv: "\<not> fst (validate_command default_settings shlex_split ''sudo ls'')"
    by (simp add: example_simps)
  have c: "create_subprocess_shell example_world ''echo hello''
              (resolve_cwd example_world None) (merge_env example_world None) = Inr 7
           \<and> wait_for_communicate example_world 7 (effective_timeout default_settings None)
               = Completed ''hello'' [] 0"
    by (simp add: example_simps)
  have r: "create_subprocess_shell wait_raises_world ''echo hello''
              (resolve_cwd wait_raises_world None) (merge_env wait_raises_world None) = Inr 7
           \<and> wait_for_communicate wait_raises_world 7
                (effective_timeout default_settings None) = WaitRaised ''Event loop is closed''"
    by (simp add: wait_raises_world_def example_simps)
  note A = execute_command_result_code [where s = default_settings and split = shlex_split
      and w = example_world and svc = empty_service and command = "''echo hello''"
      and sid = "''default''" and wd = None and env = None and t = None]
  note B = execute_command_result_code [where s = default_settings and split = shlex_split
      and w = example_world and svc = empty_service and command = "''sudo ls''"
      and sid = "''default''" and wd = None and env = None and t = None]
  note C = execute_command_result_code [where s = default_settings and split = shlex_split
      and w = wait_raises_world and svc = empty_service and command = "''echo hello''"
      and sid = "''default''" and wd = None and env = None and t = None]
  from A v c have 1: "map_of (fst (execute_command default_settings shlex_split example_world
      empty_service ''echo hello'' ''default'' None None None)) ''success''
        = Some (PBool ((0::int) = 0))
    \<and> map_of (fst (execute_command default_settings shlex_split example_world
      empty_service ''echo hello'' ''default'' None None None)) ''exit_code'' = Some (PInt 0)"
    by blast
  from B nv have 2: "map_of (fst (execute_command default_settings shlex_split example_world
      empty_service ''sudo ls'' ''default'' None None None)) ''exit_code'' = Some (PInt (- 1))"
    by blast
  from C v r have 3: "map_of (fst (execute_command default_settings shlex_split
      wait_raises_world empty_service ''echo hello'' ''default'' None None None)) ''error''
        = Some (PStr ''Event loop is closed'')"
    by blast
  from 1 2 3 show ?thesis by simp
qed

text \<open>
  The claim as stated asks for a non-empty error string after an internal exception. The
  handler stores \<^verbatim>\<open>str(e)\<close> unchanged, so an exception without a message gives the empty
  string.
\<close>

theorem execute_command_empty_error_counterexample:
  "map_of (fst (execute_command default_settings shlex_split spawn_raises_world empty_service
                  ''echo hello'' ''default'' None None None)) ''success'' = Some (PBool False)
   \<and> map_of (fst (execute_command default_settings shlex_split spawn_raises_world
                     empty_service ''echo hello'' ''default'' None None None)) ''error''
       = Some (PStr [])"
proof -
  have v: "fst (validate_command default_settings shlex_split ''echo hello'')"
    by (simp add: example_simps lex_simps)
  have sp: "create_subprocess_shell spawn_raises_world ''echo hello''
              (resolve_cwd spawn_raises_world None) (merge_env spawn_raises_world None) = Inl []"
    by (simp add: spawn_raises_world_def example_simps)
  show ?thesis
    by (simp add: execute_command_spawn_failed [OF v sp] error_result_fields)
qed

subsection \<open>Truncation of the captured output\<close>

lemma truncate_output_nonneg:
  "0 \<le> terminal_max_output s \<Longrightarrow>
   truncate_output s text
     = (if int (length text) > terminal_max_output s
        then take (nat (terminal_max_output s)) text @ truncation_marker
        else text)"
  by (simp add: truncate_output_def slice_to_def)

text \<open>
  Claim C3, as the code has it. With a non-negative cap, a decoded stream longer than the
  cap is returned as its first \<open>cap\<close> characters followed by the truncation marker, and a
  stream of length at most the cap (exactly the cap included) is returned unmodified. The
  returned dictionary has no \<^verbatim>\<open>truncated\<close> key in either case.
\<close>

theorem execute_command_truncation:
  "fst (validate_command s split command)
   \<and> create_subprocess_shell w command (resolve_cwd w wd) (merge_env w env) = Inr pid
   \<and> wait_for_communicate w pid (effective_timeout s t) = Completed out err rc
   \<and> 0 \<le> terminal_max_output s \<longrightarrow>
     map_of (fst (execute_command s split w svc command sid wd env t)) ''stdout''
       = Some (PStr (if int (length out) > terminal_max_output s
                     then take (nat (terminal_max_output s)) out @ truncation_marker
                     else out))
   \<and> map_of (fst (execute_command s split w svc command sid wd env t)) ''stderr''
       = Some (PStr (if int (length err) > terminal_max_output s
                     then take (nat (terminal_max_output s)) err @ truncation_marker
                     else err))
   \<and> map_of (fst (execute_command s split w svc command sid wd env t)) ''truncated'' = None"
proof (intro impI)
  assume h: "fst (validate_command s split command)
   \<and> create_subprocess_shell w command (resolve_cwd w wd) (merge_env w env) = Inr pid
   \<and> wait_for_communicate w pid (effective_timeout s t) = Completed out err rc
   \<and> 0 \<le> terminal_max_output s"
  then have r: "fst (execute_command s split w svc command sid wd env t)
                  = completed_result s out err rc"
    by (simp add: execute_command_completed)
  from h have cap: "0 \<le> terminal_max_output s" by simp
  show "map_of (fst (execute_command s split w svc command sid wd env t)) ''stdout''
       = Some (PStr (if int (length out) > terminal_max_output s
                     then take (nat (terminal_max_output s)) out @ truncation_marker
                     else out))
   \<and> map_of (fst (execute_command s split w svc command sid wd env t)) ''stderr''
       = Some (PStr (if int (length err) > terminal_max_output s
                     then take (nat (terminal_max_output s)) err @ truncation_marker
                     else err))
   \<and> map_of (fst (execute_command s split w svc command sid wd env t)) ''truncated'' = None"
    by (simp only: r completed_result_fields truncate_output_nonneg [OF cap] simp_thms)
qed

lemma long_output_facts:
  "fst (validate_command small_cap_settings shlex_split ''echo 0123456789'')"
  "create_subprocess_shell long_output_world ''echo 0123456789''
     (resolve_cwd long_output_world None) (merge_env long_output_world None) = Inr 7"
  "wait_for_communicate long_output_world 7 (effective_timeout small_cap_settings None)
     = Completed ''0123456789'' ''12345'' 0"
  "terminal_max_output small_cap_settings = 5"
  by (simp_all add: small_cap_settings_def long_output_world_def example_simps lex_simps)

theorem execute_command_truncation_witness:
  "map_of (fst (execute_command small_cap_settings shlex_split long_output_world empty_service
                  ''echo 0123456789'' ''default'' None None None)) ''stdout''
     = Some (PStr (''01234'' @ truncation_marker))
   \<and> map_of (fst (execute_command small_cap_settings shlex_split long_output_world
                     empty_service ''echo 0123456789'' ''default'' None None None)) ''stderr''
       = Some (PStr ''12345'')"
  using execute_command_truncation [where s = small_cap_settings and split = shlex_split
      and w = long_output_world and svc = empty_service and command = "''echo 0123456789''"
      and sid = "''default''" and wd = None and env = None and t = None and pid = 7
      and out = "''0123456789''" and err = "''12345''" and rc = 0]
    long_output_facts
  by simp

text \<open>
  The claim as stated asks for \<^verbatim>\<open>truncated\<close> set to true when a stream exceeds the cap. The
  stream is cut and marked, but the dictionary of the normal-completion path has the keys
  \<^verbatim>\<open>success\<close>, \<^verbatim>\<open>output\<close>, \<^verbatim>\<open>exit_code\<close>, \<^verbatim>\<open>stdout\<close> and \<^verbatim>\<open>stderr\<close> only.
\<close>

theorem execute_command_truncated_flag_counterexample:
  "map_of (fst (execute_command small_cap_settings shlex_split long_output_world empty_service
                  ''echo 0123456789'' ''default'' None None None)) ''stdout''
     = Some (PStr (''01234'' @ truncation_marker))
   \<and> map_of (fst (execute_command small_cap_settings shlex_split long_output_world
                     empty_service ''echo 0123456789'' ''default'' None None None)) ''truncated''
       = None"
proof -
  have r: "fst (execute_command small_cap_settings shlex_split long_output_world empty_service
                  ''echo 0123456789'' ''default'' None None None)
             = completed_result small_cap_settings ''0123456789'' ''12345'' 0"
    by (rule execute_command_completed) (rule long_output_facts)+
  show ?thesis
    by (simp add: r completed_result_fields truncate_output_def slice_to_def long_output_facts)
qed

subsection \<open>Timeout\<close>

text \<open>
  The timeout handler when the kill succeeds. When the bounded wait, called with the
  effective timeout (the request's timeout, or the configured \<^verbatim>\<open>terminal_timeout\<close> when the
  request gives none), raises \<^verbatim>\<open>asyncio.TimeoutError\<close> and then \<^verbatim>\<open>kill()\<close> and the draining
  \<^verbatim>\<open>communicate()\<close> return, the call has killed and reaped the process, returns \<^verbatim>\<open>success\<close>
  false and \<^verbatim>\<open>exit_code\<close> -1 with an error message that mentions the timeout and its bound,
  and leaves no registry entry under the execution id.
\<close>

theorem execute_command_timeout:
  "fst (validate_command s split command)
   \<and> create_subprocess_shell w command (resolve_cwd w wd) (merge_env w env) = Inr pid
   \<and> wait_for_communicate w pid (effective_timeout s t) = TimeoutError
   \<and> kill w pid = None \<and> communicate w pid = Inr drained \<longrightarrow>
     map_of (fst (execute_command s split w svc command sid wd env t)) ''success''
       = Some (PBool False)
   \<and> map_of (fst (execute_command s split w svc command sid wd env t)) ''exit_code''
       = Some (PInt (- 1))
   \<and> map_of (fst (execute_command s split w svc command sid wd env t)) ''error''
       = Some (PStr (''Command timed out after '' @ str_int (effective_timeout s t)
                       @ '' seconds''))
   \<and> str_in ''timed out''
        (''Command timed out after '' @ str_int (effective_timeout s t) @ '' seconds'')
   \<and> (t = None \<longrightarrow> effective_timeout s t = terminal_timeout s)
   \<and> children (snd (execute_command s split w svc command sid wd env t)) pid = Some Reaped
   \<and> active_processes (snd (execute_command s split w svc command sid wd env t))
        (make_process_id w sid) = None"
proof (intro impI)
  assume h: "fst (validate_command s split command)
   \<and> create_subprocess_shell w command (resolve_cwd w wd) (merge_env w env) = Inr pid
   \<and> wait_for_communicate w pid (effective_timeout s t) = TimeoutError
   \<and> kill w pid = None \<and> communicate w pid = Inr drained"
  then have v: "fst (validate_command s split command)"
    and sp: "create_subprocess_shell w command (resolve_cwd w wd) (merge_env w env) = Inr pid"
    and wt: "wait_for_communicate w pid (effective_timeout s t) = TimeoutError"
    and k: "kill w pid = None" and c: "communicate w pid = Inr drained"
    by simp_all
  have r: "fst (execute_command s split w svc command sid wd env t)
             = timeout_result (effective_timeout s t)"
    using v sp wt k c by (rule execute_command_timed_out)
  have st: "children (snd (execute_command s split w svc command sid wd env t)) pid
              = Some Reaped"
    by (simp add: execute_command_spawned [OF v sp] wait_or_kill_timed_out [OF wt k c]
          deregister_children set_status_children)
  have reg: "active_processes (snd (execute_command s split w svc command sid wd env t))
               (make_process_id w sid) = None"
    by (simp add: execute_command_spawned [OF v sp] deregister_removes)
  have d: "t = None \<longrightarrow> effective_timeout s t = terminal_timeout s"
    by (simp add: effective_timeout_def)
  show "map_of (fst (execute_command s split w svc command sid wd env t)) ''success''
       = Some (PBool False)
   \<and> map_of (fst (execute_command s split w svc command sid wd env t)) ''exit_code''
       = Some (PInt (- 1))
   \<and> map_of (fst (execute_command s split w svc command sid wd env t)) ''error''
       = Some (PStr (''Command timed out after '' @ str_int (effective_timeout s t)
                       @ '' seconds''))
   \<and> str_in ''timed out''
        (''Command timed out after '' @ str_int (effective_timeout s t) @ '' seconds'')
   \<and> (t = None \<longrightarrow> effective_timeout s t = terminal_timeout s)
   \<and> children (snd (execute_command s split w svc command sid wd env t)) pid = Some Reaped
   \<and> active_processes (snd (execute_command s split w svc command sid wd env t))
        (make_process_id w sid) = None"
    using st reg d timed_out_in_message
    by (simp only: r timeout_result_fields simp_thms)
qed

lemma timeout_world_facts:
  "fst (validate_command default_settings shlex_split ''echo hello'')"
  "create_subprocess_shell timeout_world ''echo hello''
     (resolve_cwd timeout_world None) (merge_env timeout_world None) = Inr 7"
  "wait_for_communicate timeout_world 7 t = TimeoutError"
  "kill timeout_world 7 = None"
  "communicate timeout_world 7 = Inr (''partial output'', [])"
  "make_process_id timeout_world ''default'' = ''default_1700000000.25''"
  by (simp_all add: timeout_world_def example_simps lex_simps)

theorem execute_command_timeout_witness:
  "map_of (fst (execute_command default_settings shlex_split timeout_world empty_service
                  ''echo hello'' ''default'' None None (Some 1))) ''error''
     = Some (PStr ''Command timed out after 1 seconds'')
   \<and> map_of (fst (execute_command default_settings shlex_split timeout_world empty_service
                     ''echo hello'' ''default'' None None None)) ''error''
       = Some (PStr ''Command timed out after 30 seconds'')
   \<and> active_processes
       (snd (execute_command default_settings shlex_split timeout_world empty_service
               ''echo hello'' ''default'' None None (Some 1))) ''default_1700000000.25'' = None
   \<and> children
       (snd (execute_command default_settings shlex_split timeout_world empty_service
               ''echo hello'' ''default'' None None (Some 1))) 7 = Some Reaped"
proof -
  have e1: "str_int (effective_timeout default_settings (Some 1)) = ''1''"
    by (simp add: effective_timeout_def str_int_def str_nat.simps digit_char_def)
  have e2: "str_int (effective_timeout default_settings None) = ''30''"
    by (simp add: effective_timeout_def default_settings_def str_int_def str_nat.simps
          digit_char_def)
  note A = execute_command_timeout [where s = default_settings and split = shlex_split
      and w = timeout_world and svc = empty_service and command = "''echo hello''"
      and sid = "''default''" and wd = None and env = None and t = "Some 1" and pid = 7
      and drained = "(''partial output'', [])"]
  note B = execute_command_timeout [where s = default_settings and split = shlex_split
      and w = timeout_world and svc = empty_service and command = "''echo hello''"
      and sid = "''default''" and wd = None and env = None and t = None and pid = 7
      and drained = "(''partial output'', [])"]
  from A timeout_world_facts e1 have 1:
    "map_of (fst (execute_command default_settings shlex_split timeout_world empty_service
                  ''echo hello'' ''default'' None None (Some 1))) ''error''
       = Some (PStr ''Command timed out after 1 seconds'')
     \<and> active_processes
       (snd (execute_command default_settings shlex_split timeout_world empty_service
               ''echo hello'' ''default'' None None (Some 1))) ''default_1700000000.25'' = None
     \<and> children
       (snd (execute_command default_settings shlex_split timeout_world empty_service
               ''echo hello'' ''default'' None None (Some 1))) 7 = Some Reaped"
    by simp
  from B timeout_world_facts e2 have 2:
    "map_of (fst (execute_command default_settings shlex_split timeout_world empty_service
                     ''echo hello'' ''default'' None None None)) ''error''
       = Some (PStr ''Command timed out after 30 seconds'')"
    by simp
  from 1 2 show ?thesis by blast
qed

text \<open>
  Claim C5: every command that exceeds the timeout bound is killed, and the call returns
  \<^verbatim>\<open>success\<close> false and \<^verbatim>\<open>exit_code\<close> -1 with an error message that mentions the timeout,
  leaving no registry entry. The code does so when \<^verbatim>\<open>kill()\<close> returns (above). In the
  timeout handler \<^verbatim>\<open>process.kill()\<close> is not guarded, unlike in \<open>kill_session\<close> and in
  \<^verbatim>\<open>cleanup\<close>: when it raises, the exception leaves the handler, the timeout result is never
  built, and the outer handler returns \<^verbatim>\<open>str(e)\<close> as the error. For \<^verbatim>\<open>ProcessLookupError()\<close> that
  is the empty string, which does not mention the timeout.
\<close>

theorem execute_command_timeout_kill_raises:
  "wait_for_communicate kill_raises_world 7 (effective_timeout default_settings (Some 1))
     = TimeoutError
   \<and> map_of (fst (execute_command default_settings shlex_split kill_raises_world empty_service
                     ''python nap.py'' ''default'' None None (Some 1))) ''success''
       = Some (PBool False)
   \<and> map_of (fst (execute_command default_settings shlex_split kill_raises_world empty_service
                     ''python nap.py'' ''default'' None None (Some 1))) ''error''
       = Some (PStr [])
   \<and> \<not> str_in ''timed out'' []
   \<and> active_processes
       (snd (execute_command default_settings shlex_split kill_raises_world empty_service
               ''python nap.py'' ''default'' None None (Some 1))) ''default_1700000000.25''
       = None"
proof -
  have v: "fst (validate_command default_settings shlex_split ''python nap.py'')"
    by (simp add: example_simps lex_simps)
  have sp: "create_subprocess_shell kill_raises_world ''python nap.py''
              (resolve_cwd kill_raises_world None) (merge_env kill_raises_world None) = Inr 7"
    by (simp add: kill_raises_world_def example_simps)
  have wt: "wait_for_communicate kill_raises_world 7 (effective_timeout default_settings (Some 1))
              = TimeoutError"
    by (simp add: kill_raises_world_def example_simps)
  have k: "kill kill_raises_world 7 = Some []"
    by (simp add: kill_raises_world_def example_simps)
  have id: "make_process_id kill_raises_world ''default'' = ''default_1700000000.25''"
    by (simp add: kill_raises_world_def example_simps)
  show ?thesis
    using id wt
    by (simp add: execute_command_spawned [OF v sp] wait_or_kill_kill_raised [OF wt k]
          deregister_removes error_result_fields)
qed

text \<open>
  Claim C10. Whenever the bounded wait raises \<^verbatim>\<open>asyncio.TimeoutError\<close>, the returned
  dictionary has \<^verbatim>\<open>output\<close> equal to the empty string and has no \<^verbatim>\<open>stdout\<close> and no \<^verbatim>\<open>stderr\<close>
  key, whatever the drain returned; the dictionary of a normal completion has both keys.
\<close>

theorem execute_command_timeout_output:
  "(fst (validate_command s split command)
    \<and> create_subprocess_shell w command (resolve_cwd w wd) (merge_env w env) = Inr pid
    \<and> wait_for_communicate w pid (effective_timeout s t) = TimeoutError \<longrightarrow>
      map_of (fst (execute_command s split w svc command sid wd env t)) ''output''
        = Some (PStr [])
    \<and> map_of (fst (execute_command s split w svc command sid wd env t)) ''stdout'' = None
    \<and> map_of (fst (execute_command s split w svc command sid wd env t)) ''stderr'' = None)
   \<and> (fst (validate_command s split command)
      \<and> create_subprocess_shell w command (resolve_cwd w wd) (merge_env w env) = Inr pid
      \<and> wait_for_communicate w pid (effective_timeout s t) = Completed out err rc \<longrightarrow>
        map_of (fst (execute_command s split w svc command sid wd env t)) ''stdout'' \<noteq> None
      \<and> map_of (fst (execute_command s split w svc command sid wd env t)) ''stderr'' \<noteq> None)"
proof (rule conjI; rule impI)
  assume h: "fst (validate_command s split command)
    \<and> create_subprocess_shell w command (resolve_cwd w wd) (merge_env w env) = Inr pid
    \<and> wait_for_communicate w pid (effective_timeout s t) = TimeoutError"
  then have v: "fst (validate_command s split command)"
    and sp: "create_subprocess_shell w command (resolve_cwd w wd) (merge_env w env) = Inr pid"
    and wt: "wait_for_communicate w pid (effective_timeout s t) = TimeoutError"
    by simp_all
  have "(\<exists>e. fst (execute_command s split w svc command sid wd env t) = error_result e)
        \<or> fst (execute_command s split w svc command sid wd env t)
            = timeout_result (effective_timeout s t)"
  proof (cases "kill w pid")
    case (Some e)
    with v sp wt have "fst (execute_command s split w svc command sid wd env t) = error_result e"
      by (simp add: execute_command_raised)
    then show ?thesis by blast
  next
    case None
    show ?thesis
    proof (cases "communicate w pid")
      case (Inl e)
      with v sp wt None
      have "fst (execute_command s split w svc command sid wd env t) = error_result e"
        by (simp add: execute_command_raised)
      then show ?thesis by blast
    next
      case (Inr d)
      with v sp wt None show ?thesis by (simp add: execute_command_timed_out)
    qed
  qed
  then show "map_of (fst (execute_command s split w svc command sid wd env t)) ''output''
        = Some (PStr [])
    \<and> map_of (fst (execute_command s split w svc command sid wd env t)) ''stdout'' = None
    \<and> map_of (fst (execute_command s split w svc command sid wd env t)) ''stderr'' = None"
    by (auto simp: error_result_fields timeout_result_fields)
next
  assume "fst (validate_command s split command)
      \<and> create_subprocess_shell w command (resolve_cwd w wd) (merge_env w env) = Inr pid
      \<and> wait_for_communicate w pid (effective_timeout s t) = Completed out err rc"
  then have "fst (execute_command s split w svc command sid wd env t)
               = completed_result s out err rc"
    by (simp add: execute_command_completed)
  then show "map_of (fst (execute_command s split w svc command sid wd env t)) ''stdout'' \<noteq> None
      \<and> map_of (fst (execute_command s split w svc command sid wd env t)) ''stderr'' \<noteq> None"
    by (simp add: completed_result_fields)
qed

theorem execute_command_timeout_output_witness:
  "communicate timeout_world 7 = Inr (''partial output'', [])
   \<and> map_of (fst (execute_command default_settings shlex_split timeout_world empty_service
                     ''echo hello'' ''default'' None None None)) ''output'' = Some (PStr [])
   \<and> map_of (fst (execute_command default_settings shlex_split timeout_world empty_service
                     ''echo hello'' ''default'' None None None)) ''stdout'' = None
   \<and> map_of (fst (execute_command default_settings shlex_split example_world empty_service
                     ''echo hello'' ''default'' None None None)) ''stdout'' \<noteq> None"
proof -
  have c: "create_subprocess_shell example_world ''echo hello''
              (resolve_cwd example_world None) (merge_env example_world None) = Inr 7
           \<and> wait_for_communicate example_world 7 (effective_timeout default_settings None)
               = Completed ''hello'' [] 0"
    by (simp add: example_simps)
  note A = execute_command_timeout_output [where s = default_settings and split = shlex_split
      and w = timeout_world and svc = empty_service and command = "''echo hello''"
      and sid = "''default''" and wd = None and env = None and t = None and pid = 7]
  note B = execute_command_timeout_output [where s = default_settings and split = shlex_split
      and w = example_world and svc = empty_service and command = "''echo hello''"
      and sid = "''default''" and wd = None and env = None and t = None and pid = 7
      and out = "''hello''" and err = "[]" and rc = 0]
  from A timeout_world_facts have 1:
    "map_of (fst (execute_command default_settings shlex_split timeout_world empty_service
                     ''echo hello'' ''default'' None None None)) ''output'' = Some (PStr [])
     \<and> map_of (fst (execute_command default_settings shlex_split timeout_world empty_service
                     ''echo hello'' ''default'' None None None)) ''stdout'' = None"
    by simp
  from B timeout_world_facts(1) c have 2:
    "map_of (fst (execute_command default_settings shlex_split example_world empty_service
                     ''echo hello'' ''default'' None None None)) ''stdout'' \<noteq> None"
    by simp
  from 1 2 timeout_world_facts(5) show ?thesis by blast
qed

subsection \<open>Interactive sessions\<close>

text \<open>
  Claim C4, as the code has it. \<open>create_interactive_session\<close> returns an error result exactly
  when the spawn raises, and then the service is unchanged. It does not consult the registry:
  when the spawn succeeds it returns \<^verbatim>\<open>success\<close> true with the pid of the new process and
  the entry under the session id refers to that process, whether or not the id was present
  before; no entry under another id changes.
\<close>

theorem create_interactive_session_registers:
  "(create_subprocess_exec w shell = Inr pid \<longrightarrow>
      map_of (fst (create_interactive_session w svc sid shell)) ''success'' = Some (PBool True)
    \<and> map_of (fst (create_interactive_session w svc sid shell)) ''session_id'' = Some (PStr sid)
    \<and> map_of (fst (create_interactive_session w svc sid shell)) ''pid'' = Some (PInt (int pid))
    \<and> active_processes (snd (create_interactive_session w svc sid shell)) sid = Some pid
    \<and> (\<forall>k. k \<noteq> sid \<longrightarrow>
          active_processes (snd (create_interactive_session w svc sid shell)) k
            = active_processes svc k))
   \<and> (create_subprocess_exec w shell = Inl e \<longrightarrow>
        map_of (fst (create_interactive_session w svc sid shell)) ''success''
          = Some (PBool False)
      \<and> map_of (fst (create_interactive_session w svc sid shell)) ''error'' = Some (PStr e)
      \<and> snd (create_interactive_session w svc sid shell) = svc)"
  by (simp add: create_interactive_session_def set_status_def)

theorem create_interactive_session_registers_witness:
  "active_processes one_session_service ''s2'' = None
   \<and> map_of (fst (create_interactive_session example_world one_session_service ''s2''
                     ''/bin/bash'')) ''success'' = Some (PBool True)
   \<and> active_processes
       (snd (create_interactive_session example_world one_session_service ''s2'' ''/bin/bash''))
       ''s2'' = Some 8
   \<and> active_processes
       (snd (create_interactive_session example_world one_session_service ''s2'' ''/bin/bash''))
       ''s1'' = Some 1
   \<and> map_of (fst (create_interactive_session exec_fails_world one_session_service ''s2''
                     ''/bin/nosuchshell'')) ''success'' = Some (PBool False)
   \<and> snd (create_interactive_session exec_fails_world one_session_service ''s2''
            ''/bin/nosuchshell'') = one_session_service"
proof -
  have a: "create_subprocess_exec example_world ''/bin/bash'' = Inr 8"
    by (simp add: example_world_def)
  have b: "create_subprocess_exec exec_fails_world ''/bin/nosuchshell''
             = Inl ''[Errno 2] No such file or directory''"
    by (simp add: exec_fails_world_def example_world_def)
  have c: "active_processes one_session_service ''s2'' = None"
          "active_processes one_session_service ''s1'' = Some 1"
    by (simp_all add: one_session_service_def)
  note A = create_interactive_session_registers [where w = example_world
      and svc = one_session_service and sid = "''s2''" and shell = "''/bin/bash''" and pid = 8]
  note B = create_interactive_session_registers [where w = exec_fails_world
      and svc = one_session_service and sid = "''s2''" and shell = "''/bin/nosuchshell''"
      and e = "''[Errno 2] No such file or directory''"]
  from A a c have 1:
    "map_of (fst (create_interactive_session example_world one_session_service ''s2''
                     ''/bin/bash'')) ''success'' = Some (PBool True)
     \<and> active_processes
       (snd (create_interactive_session example_world one_session_service ''s2'' ''/bin/bash''))
       ''s2'' = Some 8
     \<and> active_processes
       (snd (create_interactive_session example_world one_session_service ''s2'' ''/bin/bash''))
       ''s1'' = Some 1"
    by simp
  from B b have 2:
    "map_of (fst (create_interactive_session exec_fails_world one_session_service ''s2''
                     ''/bin/nosuchshell'')) ''success'' = Some (PBool False)
     \<and> snd (create_interactive_session exec_fails_world one_session_service ''s2''
            ''/bin/nosuchshell'') = one_session_service"
    by simp
  from 1 2 c(1) show ?thesis by blast
qed

text \<open>
  The claim as stated asks for an error result when the id is already registered. With
  \<^verbatim>\<open>s1\<close> registered for process 1, a second creation under \<^verbatim>\<open>s1\<close> succeeds and the entry
  then refers to the new process 8.
\<close>

theorem create_interactive_session_duplicate_counterexample:
  "active_processes one_session_service ''s1'' = Some 1
   \<and> map_of (fst (create_interactive_session example_world one_session_service ''s1''
                     ''/bin/bash'')) ''success'' = Some (PBool True)
   \<and> map_of (fst (create_interactive_session example_world one_session_service ''s1''
                     ''/bin/bash'')) ''error'' = None
   \<and> active_processes
       (snd (create_interactive_session example_world one_session_service ''s1'' ''/bin/bash''))
       ''s1'' = Some 8"
  by (simp add: create_interactive_session_def set_status_def one_session_service_def
        example_world_def)

text \<open>
  Claim C8. A successful \<open>kill_session\<close> was called on a registered session and has removed
  its entry: whatever the environment does afterwards, \<open>send_to_session\<close> with that id returns
  \<^verbatim>\<open>None\<close> and a repeated \<open>kill_session\<close> returns \<^verbatim>\<open>False\<close> and changes nothing. For an id
  absent from the registry \<open>kill_session\<close> returns \<^verbatim>\<open>False\<close>. The kill of a registered
  session succeeds, with the process reaped, when \<^verbatim>\<open>kill()\<close> and \<^verbatim>\<open>communicate()\<close> return.
\<close>

theorem kill_session_removes:
  "(fst (kill_session w svc sid) \<longrightarrow>
      active_processes svc sid \<noteq> None
    \<and> active_processes (snd (kill_session w svc sid)) sid = None
    \<and> send_to_session w' (snd (kill_session w svc sid)) sid input_data = None
    \<and> kill_session w'' (snd (kill_session w svc sid)) sid
        = (False, snd (kill_session w svc sid)))
   \<and> (active_processes svc sid = None \<longrightarrow> kill_session w svc sid = (False, svc))
   \<and> (active_processes svc sid = Some pid \<and> kill w pid = None
      \<and> communicate w pid = Inr drained \<longrightarrow>
        fst (kill_session w svc sid)
      \<and> children (snd (kill_session w svc sid)) pid = Some Reaped)"
proof (intro conjI impI)
  assume ok: "fst (kill_session w svc sid)"
  then obtain pid' d where p: "active_processes svc sid = Some pid'"
    and k: "kill w pid' = None" and c: "communicate w pid' = Inr d"
    by (auto simp: kill_session_def split: option.splits sum.splits)
  then have s: "snd (kill_session w svc sid)
      = (set_status pid' Reaped svc)\<lparr>active_processes := (active_processes svc)(sid := None)\<rparr>"
    by (simp add: kill_session_def)
  from p show "active_processes svc sid \<noteq> None" by simp
  show r: "active_processes (snd (kill_session w svc sid)) sid = None"
    by (simp add: s)
  from r show "send_to_session w' (snd (kill_session w svc sid)) sid input_data = None"
    by (simp add: send_to_session_def)
  from r show "kill_session w'' (snd (kill_session w svc sid)) sid
        = (False, snd (kill_session w svc sid))"
    by (simp add: kill_session_def)
next
  assume "active_processes svc sid = None"
  then show "kill_session w svc sid = (False, svc)"
    by (simp add: kill_session_def)
next
  assume h: "active_processes svc sid = Some pid \<and> kill w pid = None
      \<and> communicate w pid = Inr drained"
  then show "fst (kill_session w svc sid)"
    by (simp add: kill_session_def)
next
  assume h: "active_processes svc sid = Some pid \<and> kill w pid = None
      \<and> communicate w pid = Inr drained"
  then show "children (snd (kill_session w svc sid)) pid = Some Reaped"
    by (simp add: kill_session_def set_status_def)
qed

theorem kill_session_removes_witness:
  "fst (kill_session example_world one_session_service ''s1'')
   \<and> active_processes (snd (kill_session example_world one_session_service ''s1'')) ''s1''
       = None
   \<and> send_to_session example_world
       (snd (kill_session example_world one_session_service ''s1'')) ''s1'' ''ls'' = None
   \<and> kill_session example_world
       (snd (kill_session example_world one_session_service ''s1'')) ''s1''
       = (False, snd (kill_session example_world one_session_service ''s1''))
   \<and> kill_session example_world empty_service ''s1'' = (False, empty_service)"
proof -
  have a: "active_processes one_session_service ''s1'' = Some 1"
    by (simp add: one_session_service_def)
  have b: "kill example_world 1 = None" "communicate example_world 1 = Inr ([], [])"
    by (simp_all add: example_world_def)
  have c: "active_processes empty_service ''s1'' = None"
    by (simp add: empty_service_def)
  note A = kill_session_removes [where w = example_world and svc = one_session_service
      and sid = "''s1''" and pid = 1 and drained = "([], [])" and w' = example_world
      and w'' = example_world and input_data = "''ls''"]
  note B = kill_session_removes [where w = example_world and svc = empty_service
      and sid = "''s1''"]
  from A a b have 0: "fst (kill_session example_world one_session_service ''s1'')"
    by blast
  with A have 1:
    "active_processes (snd (kill_session example_world one_session_service ''s1'')) ''s1''
       = None
     \<and> send_to_session example_world
       (snd (kill_session example_world one_session_service ''s1'')) ''s1'' ''ls'' = None
     \<and> kill_session example_world
       (snd (kill_session example_world one_session_service ''s1'')) ''s1''
       = (False, snd (kill_session example_world one_session_service ''s1''))"
    by blast
  from B c have 2: "kill_session example_world empty_service ''s1'' = (False, empty_service)"
    by blast
  from 0 1 2 show ?thesis by blast
qed

subsection \<open>File leaves of the tree walk\<close>





end
